theory Spec2Isabelle
  imports Main
begin

section \<open>Common values: exceptions and outcomes\<close>

text \<open>
  The two modules of the prefork server (\<open>starman/server.py\<close>, \<open>starman/worker.py\<close>) are
  embedded as state-passing functions. An exception is a value; a call that does not come
  back (it waits in a blocking system call, or it repeats an iteration that changes nothing)
  has the outcome \<open>Hangs\<close>.
\<close>

datatype errno =
    ECHILD | ESRCH | EAGAIN | ECONNABORTED | EPROTO | EPIPE | ECONNRESET | EBADF
  | ENOENT | EADDRINUSE | EACCES

datatype exn =
    OSError errno
  | AssertionError string
  | KeyError string
  | NameError string
  | UnboundLocalError string
  | AttributeError string
  | ValueError string
  | IndexError
  | HttpParserError
  | AppError string

datatype 'a outcome = Returned 'a | Raised exn | Hangs

definition and_then :: "'a outcome \<Rightarrow> ('a \<Rightarrow> 'b outcome) \<Rightarrow> 'b outcome" where
  "and_then r f = (case r of Returned x \<Rightarrow> f x | Raised e \<Rightarrow> Raised e | Hangs \<Rightarrow> Hangs)"

subsection \<open>Python dictionaries in insertion order\<close>

text \<open>
  \<open>self.workers\<close> is a \<open>dict\<close>: its keys are listed in insertion order, an assignment to a
  key that is present keeps the key's place, a deletion removes the entry.
\<close>

type_synonym ('k, 'v) dict = "('k \<times> 'v) list"

definition keys :: "('k, 'v) dict \<Rightarrow> 'k list" where
  "keys d = map fst d"

fun dict_set :: "('k, 'v) dict \<Rightarrow> 'k \<Rightarrow> 'v \<Rightarrow> ('k, 'v) dict" where
  "dict_set [] k v = [(k, v)]"
| "dict_set ((k', v') # d) k v = (if k' = k then (k, v) # d else (k', v') # dict_set d k v)"

definition dict_del :: "('k, 'v) dict \<Rightarrow> 'k \<Rightarrow> ('k, 'v) dict" where
  "dict_del d k = filter (\<lambda>kv. fst kv \<noteq> k) d"

section \<open>The master: \<open>server.py\<close>\<close>

subsection \<open>The kernel as the master sees it\<close>

text \<open>
  \<open>children\<close> are the running child processes, \<open>exited\<close> the children that have terminated
  and have not been waited for yet (in the order \<open>waitpid\<close> hands them out, with their
  status), \<open>signals\<close> the log of every signal \<open>os.kill\<close> delivered, oldest first.
  \<open>fork\<close> hands out \<open>next_pid\<close> and fails with \<open>EAGAIN\<close> once \<open>proc_limit\<close> children exist.
  The kernel is frozen during a call: a running child exits only when it is sent \<open>SIGTERM\<close>
  (workers keep the default disposition, \<open>worker.py\<close> line 181), and that is delivered at once.
\<close>

type_synonym pid = nat

record os_state =
  children :: "pid list"
  exited :: "(pid \<times> nat) list"
  signals :: "(pid \<times> nat) list"
  next_pid :: pid
  clock :: nat
  proc_limit :: nat

definition SIGTERM :: nat where "SIGTERM = 15"
definition WNOHANG :: nat where "WNOHANG = 1"

definition os_kill :: "os_state \<Rightarrow> pid \<Rightarrow> nat \<Rightarrow> errno + os_state" where
  "os_kill os p sig =
     (if p \<in> set (children os) then
        (if sig = SIGTERM
         then Inr (os\<lparr>children := removeAll p (children os),
                      exited := exited os @ [(p, sig)],
                      signals := signals os @ [(p, sig)]\<rparr>)
         else Inr (os\<lparr>signals := signals os @ [(p, sig)]\<rparr>))
      else if p \<in> fst ` set (exited os) then Inr (os\<lparr>signals := signals os @ [(p, sig)]\<rparr>)
      else Inl ESRCH)"

datatype wait_result = WaitReturns pid nat os_state | WaitRaises errno | WaitBlocks

text \<open>
  \<open>os.waitpid(-1, options)\<close>: an exited child is returned and forgotten; with no child at all
  the call raises \<open>ECHILD\<close>; with running children only, \<open>WNOHANG\<close> returns \<open>(0, 0)\<close> and
  \<open>options = 0\<close> waits for a child to exit.
\<close>

definition waitpid :: "os_state \<Rightarrow> nat \<Rightarrow> wait_result" where
  "waitpid os opts =
     (case exited os of
        (p, st) # rest \<Rightarrow> WaitReturns p st (os\<lparr>exited := rest\<rparr>)
      | [] \<Rightarrow> if children os = [] then WaitRaises ECHILD
              else if opts = WNOHANG then WaitReturns 0 0 os
              else WaitBlocks)"

definition os_fork :: "os_state \<Rightarrow> errno + pid \<times> os_state" where
  "os_fork os =
     (if proc_limit os \<le> length (children os) + length (exited os) then Inl EAGAIN
      else Inr (next_pid os,
                os\<lparr>children := children os @ [next_pid os], next_pid := Suc (next_pid os)\<rparr>))"

subsection \<open>The \<open>Server\<close> object\<close>

record config =
  opt_workers :: int
  max_requests :: int
  disable_keepalive :: bool
  version :: string
  listen :: "string list"

record master =
  workers :: "(pid, nat) dict"
  running :: bool
  worker_count :: int
  hup_received :: bool
  quit_received :: bool
  ttin_received :: bool
  ttou_received :: bool
  sys :: os_state

text \<open>\<open>Server.__init__\<close> (lines 26-39).\<close>

definition init :: "config \<Rightarrow> os_state \<Rightarrow> master" where
  "init opts os =
     \<lparr>workers = [], running = True, worker_count = opt_workers opts,
      hup_received = False, quit_received = False,
      ttin_received = False, ttou_received = False, sys = os\<rparr>"

text \<open>The signal handlers (lines 204-214) only set a flag.\<close>

definition handle_hup :: "master \<Rightarrow> master" where
  "handle_hup m = m\<lparr>hup_received := True\<rparr>"

definition handle_quit :: "master \<Rightarrow> master" where
  "handle_quit m = m\<lparr>quit_received := True\<rparr>"

definition handle_ttin :: "master \<Rightarrow> master" where
  "handle_ttin m = m\<lparr>ttin_received := True\<rparr>"

definition handle_ttou :: "master \<Rightarrow> master" where
  "handle_ttou m = m\<lparr>ttou_received := True\<rparr>"

subsection \<open>Listening sockets\<close>

text \<open>
  \<open>setup_sockets\<close> (lines 56-84). What the process finds around it is a parameter: the value
  of the environment variable \<open>SERVER_STARTER_PORT\<close>, Python's \<open>int\<close> on a string, and the
  error, if any, of \<open>socket.fromfd\<close>, \<open>os.remove\<close> and \<open>bind\<close>. The result is
  \<open>self.sockets\<close>, one endpoint for each socket appended.
\<close>

datatype endpoint = Tcp string int | Unix string | Inherited int

record host =
  server_starter_port :: "string option"
  py_int :: "string \<Rightarrow> int option"
  fromfd_error :: "int \<Rightarrow> errno option"
  remove_error :: "string \<Rightarrow> errno option"
  bind_error :: "endpoint \<Rightarrow> errno option"

text \<open>\<open>s.split(sep)\<close> and \<open>s.rsplit(sep, 1)\<close> (for an \<open>s\<close> that contains \<open>sep\<close>), one-byte \<open>sep\<close>.\<close>

fun str_split :: "char \<Rightarrow> string \<Rightarrow> string list" where
  "str_split sep [] = [[]]"
| "str_split sep (c # cs) =
     (if c = sep then [] # str_split sep cs
      else (case str_split sep cs of [] \<Rightarrow> [[c]] | part # parts \<Rightarrow> (c # part) # parts))"

definition rsplit1 :: "char \<Rightarrow> string \<Rightarrow> string \<times> string" where
  "rsplit1 sep s =
     (rev (drop 1 (dropWhile (\<lambda>c. c \<noteq> sep) (rev s))), rev (takeWhile (\<lambda>c. c \<noteq> sep) (rev s)))"

fun bind_each :: "host \<Rightarrow> string list \<Rightarrow> endpoint list \<Rightarrow> exn + endpoint list" where
  "bind_each env [] socks = Inr socks"
| "bind_each env (listen_addr # rest) socks =
     (if CHR '':'' \<in> set listen_addr then
        (let (hostname, port) = rsplit1 (CHR '':'') listen_addr in
         case py_int env port of
           None \<Rightarrow> Inl (ValueError port)
         | Some n \<Rightarrow>
             (case bind_error env (Tcp hostname n) of
                Some e \<Rightarrow> Inl (OSError e)
              | None \<Rightarrow> bind_each env rest (socks @ [Tcp hostname n])))
      else
        (case remove_error env listen_addr of
           Some e \<Rightarrow>
             if e \<noteq> ENOENT then Inl (OSError e)
             else (case bind_error env (Unix listen_addr) of
                     Some e' \<Rightarrow> Inl (OSError e')
                   | None \<Rightarrow> bind_each env rest (socks @ [Unix listen_addr]))
         | None \<Rightarrow>
             (case bind_error env (Unix listen_addr) of
                Some e' \<Rightarrow> Inl (OSError e')
              | None \<Rightarrow> bind_each env rest (socks @ [Unix listen_addr]))))"

definition setup_sockets :: "host \<Rightarrow> config \<Rightarrow> endpoint list \<Rightarrow> exn + endpoint list" where
  "setup_sockets env opts socks =
     (case server_starter_port env of
        Some (c # cs) \<Rightarrow>
          (case str_split (CHR ''='') (c # cs) of
             [hostname, port, fd] \<Rightarrow>
               (case py_int env fd of
                  None \<Rightarrow> Inl (ValueError fd)
                | Some n \<Rightarrow>
                    (case fromfd_error env n of
                       Some e \<Rightarrow> Inl (OSError e)
                     | None \<Rightarrow> Inr (socks @ [Inherited n])))
           | _ \<Rightarrow> Inl (ValueError (c # cs)))
      | _ \<Rightarrow> bind_each env (listen opts) socks)"

subsection \<open>Supervision\<close>

text \<open>
  \<open>kill_workers\<close> (lines 142-148) signals every key of a snapshot of \<open>self.workers\<close>; a pid
  the kernel does not know (\<open>ESRCH\<close>) is dropped from the map, any other \<open>OSError\<close> is
  swallowed by the \<open>except\<close> clause.
\<close>

fun kill_each :: "nat \<Rightarrow> pid list \<Rightarrow> master \<Rightarrow> master" where
  "kill_each sig [] m = m"
| "kill_each sig (p # ps) m =
     (case os_kill (sys m) p sig of
        Inr os' \<Rightarrow> kill_each sig ps (m\<lparr>sys := os'\<rparr>)
      | Inl e \<Rightarrow> if e = ESRCH then kill_each sig ps (m\<lparr>workers := dict_del (workers m) p\<rparr>)
                 else kill_each sig ps m)"

definition kill_workers :: "nat \<Rightarrow> master \<Rightarrow> master" where
  "kill_workers sig m = kill_each sig (keys (workers m)) m"

text \<open>
  \<open>spawn_worker\<close> (lines 154-167), on the parent's side of the fork: the new pid is stored
  with the current time. A failing fork raises.
\<close>

definition spawn_worker :: "master \<Rightarrow> master outcome" where
  "spawn_worker m =
     (case os_fork (sys m) of
        Inl e \<Rightarrow> Raised (OSError e)
      | Inr (p, os') \<Rightarrow>
          Returned (m\<lparr>workers := dict_set (workers m) p (clock os'), sys := os'\<rparr>))"

definition nprocs :: "master \<Rightarrow> nat" where
  "nprocs m = length (children (sys m)) + length (exited (sys m))"

text \<open>\<open>spawn_workers\<close> (lines 150-152): \<open>while len(self.workers) < self.worker_count\<close>.\<close>

function spawn_workers :: "master \<Rightarrow> master outcome" where
  "spawn_workers m =
     (if int (length (workers m)) < worker_count m then
        (case spawn_worker m of
           Returned m' \<Rightarrow> spawn_workers m'
         | Raised e \<Rightarrow> Raised e
         | Hangs \<Rightarrow> Hangs)
      else Returned m)"
  by pat_completeness auto
termination
proof (relation "measure (\<lambda>m. proc_limit (sys m) - nprocs m)")
  show "wf (measure (\<lambda>m. proc_limit (sys m) - nprocs m))" by simp
next
  fix m m'
  assume "spawn_worker m = Returned m'"
  then have "nprocs m' = Suc (nprocs m) \<and> nprocs m < proc_limit (sys m) \<and>
             proc_limit (sys m') = proc_limit (sys m)"
    by (auto simp: spawn_worker_def os_fork_def nprocs_def split: if_splits sum.splits)
  then have "proc_limit (sys m') - nprocs m' < proc_limit (sys m) - nprocs m" by arith
  then show "(m', m) \<in> measure (\<lambda>m. proc_limit (sys m) - nprocs m)" by simp
qed

declare spawn_workers.simps [simp del]

text \<open>
  \<open>reap_workers\<close> (lines 169-183). The first line reads
  \<open>options = 0 if not block else os.WNOHANG\<close>. One iteration of \<open>while True\<close> calls
  \<open>waitpid\<close>; an iteration that returns \<open>(0, 0)\<close> and leaves the state as it was is repeated
  forever, which is the outcome \<open>Hangs\<close>.
\<close>

definition forget_worker :: "pid \<Rightarrow> master \<Rightarrow> master" where
  "forget_worker p m =
     (if p \<in> set (keys (workers m)) then m\<lparr>workers := dict_del (workers m) p\<rparr> else m)"

function reap_loop :: "bool \<Rightarrow> nat \<Rightarrow> master \<Rightarrow> master outcome" where
  "reap_loop block opts m =
     (case waitpid (sys m) opts of
        WaitRaises e \<Rightarrow> if e \<noteq> ECHILD then Raised (OSError e) else Returned m
      | WaitBlocks \<Rightarrow> Hangs
      | WaitReturns p status os' \<Rightarrow>
          (let m1 = m\<lparr>sys := os'\<rparr> in
           if p = 0 \<and> \<not> block then Returned m1
           else
             (let m2 = forget_worker p m1 in
              if block \<and> workers m2 = [] then Returned m2
              else if m2 = m then Hangs
              else reap_loop block opts m2)))"
  by pat_completeness auto
termination
proof (relation "measure (\<lambda>(block, opts, m). length (exited (sys m)) + length (workers m))")
  show "wf (measure (\<lambda>(block, opts, m). length (exited (sys m)) + length (workers m)))" by simp
next
  fix block :: bool and opts :: nat and m :: master and p status os' m1 m2
  assume w: "waitpid (sys m) opts = WaitReturns p status os'"
    and m1: "m1 = m\<lparr>sys := os'\<rparr>"
    and m2: "m2 = forget_worker p m1"
    and neq: "m2 \<noteq> m"
  have le: "length (dict_del (workers m) p) \<le> length (workers m)"
    by (simp add: dict_del_def)
  have lt: "p \<in> set (keys (workers m)) \<Longrightarrow> length (dict_del (workers m) p) < length (workers m)"
    unfolding dict_del_def keys_def
    by (auto intro: length_filter_less)
  have len2: "length (workers m2) \<le> length (workers m)"
    using le by (simp add: m2 m1 forget_worker_def)
  have sys2: "sys m2 = os'"
    by (simp add: m2 m1 forget_worker_def)
  show "((block, opts, m2), (block, opts, m))
          \<in> measure (\<lambda>(block, opts, m). length (exited (sys m)) + length (workers m))"
  proof (cases "exited (sys m)")
    case Nil
    with w have "os' = sys m"
      by (auto simp: waitpid_def split: if_splits)
    with m1 have same: "m1 = m" by simp
    have "p \<in> set (keys (workers m))"
    proof (rule ccontr)
      assume "p \<notin> set (keys (workers m))"
      with same m2 have "m2 = m" by (simp add: forget_worker_def)
      with neq show False by simp
    qed
    then have "length (workers m2) < length (workers m)"
      using lt by (simp add: m2 same forget_worker_def)
    moreover have "exited (sys m2) = exited (sys m)"
      using sys2 \<open>os' = sys m\<close> by simp
    ultimately show ?thesis by simp
  next
    case (Cons z rest)
    with w have "exited os' = rest"
      by (auto simp: waitpid_def split: prod.splits)
    with Cons sys2 len2 show ?thesis by simp
  qed
qed

declare reap_loop.simps [simp del]

definition reap_workers :: "bool \<Rightarrow> master \<Rightarrow> master outcome" where
  "reap_workers block m = reap_loop block (if \<not> block then 0 else WNOHANG) m"

text \<open>\<open>graceful_restart\<close> (lines 136-140).\<close>

definition graceful_restart :: "master \<Rightarrow> master outcome" where
  "graceful_restart m =
     and_then (reap_workers True (kill_workers SIGTERM m)) spawn_workers"

text \<open>\<open>check_signals\<close> (lines 119-134): four independent \<open>if\<close> statements, in this order.\<close>

definition check_signals :: "master \<Rightarrow> master outcome" where
  "check_signals m =
     and_then (if hup_received m then graceful_restart (m\<lparr>hup_received := False\<rparr>)
               else Returned m)
       (\<lambda>m1.
          let m2 = (if quit_received m1 then m1\<lparr>quit_received := False, running := False\<rparr>
                    else m1);
              m3 = (if ttin_received m2
                    then m2\<lparr>ttin_received := False, worker_count := worker_count m2 + 1\<rparr>
                    else m2);
              m4 = (if ttou_received m3
                    then (if worker_count m3 > 1
                          then m3\<lparr>ttou_received := False, worker_count := worker_count m3 - 1\<rparr>
                          else m3\<lparr>ttou_received := False\<rparr>)
                    else m3)
          in Returned m4)"

text \<open>
  \<open>maintain_worker_count\<close> (lines 185-193). With a deficit, \<open>spawn_worker\<close> runs \<open>diff\<close>
  times. With an excess, \<open>pids_to_kill\<close> holds the first \<open>abs(diff)\<close> keys, and the loop body
  is \<open>self.kill_workers(signal.SIGTERM)\<close>: the loop variable is not used.
\<close>

fun spawn_times :: "nat \<Rightarrow> master \<Rightarrow> master outcome" where
  "spawn_times 0 m = Returned m"
| "spawn_times (Suc n) m = and_then (spawn_worker m) (spawn_times n)"

fun kill_for_each :: "pid list \<Rightarrow> master \<Rightarrow> master" where
  "kill_for_each [] m = m"
| "kill_for_each (p # ps) m = kill_for_each ps (kill_workers SIGTERM m)"

definition maintain_worker_count :: "master \<Rightarrow> master outcome" where
  "maintain_worker_count m =
     (let diff = worker_count m - int (length (workers m)) in
      if diff > 0 then spawn_times (nat diff) m
      else if diff < 0 then
        (let pids_to_kill = take (nat \<bar>diff\<bar>) (keys (workers m))
         in Returned (kill_for_each pids_to_kill m))
      else Returned m)"

text \<open>
  One pass through the body of \<open>master_loop\<close> (lines 110-113); \<open>time.sleep(1)\<close> moves the
  clock. \<open>master_loop\<close> itself (lines 106-117) spawns the pool and repeats the body while
  \<open>self.running\<close>; it is run here for at most \<open>fuel\<close> passes.
\<close>

definition sleep :: "nat \<Rightarrow> master \<Rightarrow> master" where
  "sleep n m = m\<lparr>sys := (sys m)\<lparr>clock := clock (sys m) + n\<rparr>\<rparr>"

definition tick :: "master \<Rightarrow> master outcome" where
  "tick m =
     and_then (check_signals m) (\<lambda>m1.
     and_then (reap_workers False m1) (\<lambda>m2.
     and_then (maintain_worker_count m2) (\<lambda>m3.
     Returned (sleep 1 m3))))"

fun ticks :: "nat \<Rightarrow> master \<Rightarrow> master outcome option" where
  "ticks 0 m = (if running m then None else Some (Returned m))"
| "ticks (Suc fuel) m =
     (if running m then
        (case tick m of
           Returned m' \<Rightarrow> ticks fuel m'
         | Raised e \<Rightarrow> Some (Raised e)
         | Hangs \<Rightarrow> Some Hangs)
      else Some (Returned m))"

definition master_loop :: "nat \<Rightarrow> master \<Rightarrow> master outcome option" where
  "master_loop fuel m =
     (case spawn_workers m of
        Returned m' \<Rightarrow> ticks fuel m'
      | Raised e \<Rightarrow> Some (Raised e)
      | Hangs \<Rightarrow> Some Hangs)"

section \<open>The worker: \<open>worker.py\<close>\<close>

subsection \<open>Bytes and strings\<close>

text \<open>
  Every \<open>decode('latin-1')\<close> and \<open>encode('latin-1')\<close> of the module maps byte \<open>n\<close> to code
  point \<open>n\<close> and back, so bytes and text are both lists of 8-bit characters. \<open>upper\<close> and
  \<open>lower\<close> are given on the ASCII letters: the parser hands over header names made of token
  characters only, and no other character is turned into an ASCII letter by \<open>str.lower\<close>.
\<close>

type_synonym bytes = string

definition upper_char :: "char \<Rightarrow> char" where
  "upper_char c =
     (case map_of (zip ''abcdefghijklmnopqrstuvwxyz'' ''ABCDEFGHIJKLMNOPQRSTUVWXYZ'') c of
        Some u \<Rightarrow> u | None \<Rightarrow> c)"

definition lower_char :: "char \<Rightarrow> char" where
  "lower_char c =
     (case map_of (zip ''ABCDEFGHIJKLMNOPQRSTUVWXYZ'' ''abcdefghijklmnopqrstuvwxyz'') c of
        Some l \<Rightarrow> l | None \<Rightarrow> c)"

definition upper :: "string \<Rightarrow> string" where
  "upper s = map upper_char s"

definition lower :: "string \<Rightarrow> string" where
  "lower s = map lower_char s"

definition replace_char :: "char \<Rightarrow> char \<Rightarrow> string \<Rightarrow> string" where
  "replace_char a b s = map (\<lambda>c. if c = a then b else c) s"

text \<open>\<open>s.partition(sep)\<close> for a one-byte separator: the parts before and after its first
  occurrence (the whole of \<open>s\<close> and the empty string when it does not occur).\<close>

definition partition_at :: "char \<Rightarrow> bytes \<Rightarrow> bytes \<times> bytes" where
  "partition_at sep s = (takeWhile (\<lambda>c. c \<noteq> sep) s, drop 1 (dropWhile (\<lambda>c. c \<noteq> sep) s))"

definition crlf :: bytes where
  "crlf = [CHR 0x0D, CHR 0x0A]"

fun join :: "bytes \<Rightarrow> bytes list \<Rightarrow> bytes" where
  "join sep [] = []"
| "join sep [x] = x"
| "join sep (x # y # ys) = x @ sep @ join sep (y # ys)"

text \<open>\<open>str(n)\<close> for a port number.\<close>

function str_nat :: "nat \<Rightarrow> string" where
  "str_nat n =
     (if n < 10 then [''0123456789'' ! n]
      else str_nat (n div 10) @ [''0123456789'' ! (n mod 10)])"
  by pat_completeness auto
termination
  by (relation "measure id") auto

declare str_nat.simps [simp del]

text \<open>\<open>io.BytesIO\<close>: a buffer and a position; \<open>write\<close> overwrites from the position.\<close>

record bytesio =
  buf :: bytes
  pos :: nat

definition new_bytesio :: bytesio where
  "new_bytesio = \<lparr>buf = [], pos = 0\<rparr>"

definition bio_write :: "bytesio \<Rightarrow> bytes \<Rightarrow> bytesio" where
  "bio_write b d =
     \<lparr>buf = take (pos b) (buf b) @ replicate (pos b - length (buf b)) (CHR 0x00) @ d
              @ drop (pos b + length d) (buf b),
      pos = pos b + length d\<rparr>"

definition bio_seek :: "bytesio \<Rightarrow> nat \<Rightarrow> bytesio" where
  "bio_seek b n = b\<lparr>pos := n\<rparr>"

subsection \<open>The application and the parser, as the handler meets them\<close>

text \<open>
  The values of the \<open>environ\<close> dictionary: strings, the booleans and the version pair of the
  \<open>wsgi.*\<close> keys, and the three objects it refers to.
\<close>

datatype env_value =
    Str string
  | Flag bool
  | Version nat nat
  | Input_stream
  | Error_stream
  | Write_informational

type_synonym environ = "string \<rightharpoonup> env_value"

text \<open>
  The application is outside the repository. One invocation is described by what it does to
  the server: the calls it makes, in order, to \<open>start_response\<close> and to the write callable
  that \<open>start_response\<close> returns, and then either the exception it raises or the iterable it
  returns: the chunks the iterable yields, the exception that ends the iteration (if any), and
  whether the iterable has a \<open>close\<close> attribute. An exception raised by \<open>start_response\<close>
  is not caught by the application. Every exception derives from \<open>Exception\<close>.
\<close>

datatype app_step =
    Start_response string "(string \<times> string) list" "exn option"
  | Write bytes

datatype app_result =
    App_raises exn
  | App_returns "bytes list" "exn option" bool

type_synonym application = "environ \<Rightarrow> bytes \<Rightarrow> app_step list \<times> app_result"

text \<open>
  \<open>HttpRequestParser\<close> is the \<open>httptools\<close> library. What \<open>feed_data\<close> does with one chunk is
  given by the callbacks it makes, in order, and by whether it rejects the chunk after them.
\<close>

datatype event =
    Message_begin
  | Url bytes
  | Header bytes bytes
  | Headers_complete bytes
  | Body bytes
  | Message_complete

text \<open>One \<open>recv\<close> on the client socket; the end of the list is the peer's close (\<open>b''\<close>).\<close>

datatype recv = Data "event list" bool | Recv_fails errno

subsection \<open>\<open>RequestHandler\<close>\<close>

text \<open>
  The attributes of the object, with the client socket flattened into \<open>sockname\<close>, \<open>wire\<close>
  (all bytes passed to \<open>sendall\<close>, in order) and \<open>closed\<close>. \<open>now\<close> is what
  \<open>formatdate(time.time(), usegmt=True)\<close> returns. \<open>app_calls\<close> counts the invocations of
  the application; it is an observation, not an attribute.
\<close>

record handler =
  app :: application
  addr :: "string \<times> nat"
  sockname :: "string \<times> nat"
  options :: config
  now :: string
  headers :: "(string \<times> bytes) list"
  body :: bytesio
  environ :: environ
  response :: "(string \<times> (string \<times> string) list) option"
  wire :: bytes
  closed :: bool
  app_calls :: nat

text \<open>\<open>__init__\<close> (lines 17-27).\<close>

definition new_handler ::
  "application \<Rightarrow> string \<times> nat \<Rightarrow> string \<times> nat \<Rightarrow> config \<Rightarrow> string \<Rightarrow> handler" where
  "new_handler a client_sockname client_addr opts d =
     \<lparr>app = a, addr = client_addr, sockname = client_sockname, options = opts, now = d,
      headers = [], body = new_bytesio, environ = Map.empty, response = None,
      wire = [], closed = False, app_calls = 0\<rparr>"

definition sendall :: "bytes \<Rightarrow> handler \<Rightarrow> handler" where
  "sendall d h = h\<lparr>wire := wire h @ d\<rparr>"

text \<open>\<open>on_message_begin\<close> (lines 29-50).\<close>

definition on_message_begin :: "handler \<Rightarrow> handler" where
  "on_message_begin h =
     h\<lparr>headers := [], body := new_bytesio,
       environ := [
         ''wsgi.version'' \<mapsto> Version 1 0,
         ''wsgi.url_scheme'' \<mapsto> Str ''http'',
         ''wsgi.input'' \<mapsto> Input_stream,
         ''wsgi.errors'' \<mapsto> Error_stream,
         ''wsgi.multithread'' \<mapsto> Flag False,
         ''wsgi.multiprocess'' \<mapsto> Flag True,
         ''wsgi.run_once'' \<mapsto> Flag False,
         ''SERVER_SOFTWARE'' \<mapsto> Str (''Starman/'' @ version (options h)),
         ''REQUEST_METHOD'' \<mapsto> Str [],
         ''SCRIPT_NAME'' \<mapsto> Str [],
         ''PATH_INFO'' \<mapsto> Str [],
         ''QUERY_STRING'' \<mapsto> Str [],
         ''SERVER_NAME'' \<mapsto> Str (fst (sockname h)),
         ''SERVER_PORT'' \<mapsto> Str (str_nat (snd (sockname h))),
         ''REMOTE_ADDR'' \<mapsto> Str (fst (addr h)),
         ''REMOTE_PORT'' \<mapsto> Str (str_nat (snd (addr h))),
         ''wsgix.informational'' \<mapsto> Write_informational]\<rparr>"

text \<open>\<open>on_url\<close> (lines 52-56).\<close>

definition on_url :: "bytes \<Rightarrow> handler \<Rightarrow> handler" where
  "on_url url h =
     (let (path, query) = partition_at (CHR ''?'') url in
      h\<lparr>environ := (environ h)(''RAW_URI'' \<mapsto> Str url,
                                ''PATH_INFO'' \<mapsto> Str path,
                                ''QUERY_STRING'' \<mapsto> Str query)\<rparr>)"

text \<open>\<open>on_header\<close> (lines 58-63).\<close>

definition header_key :: "bytes \<Rightarrow> string" where
  "header_key name =
     (let n = replace_char (CHR ''-'') (CHR ''_'') (upper name) in
      if n \<notin> {''CONTENT_TYPE'', ''CONTENT_LENGTH''} then ''HTTP_'' @ n else n)"

definition on_header :: "bytes \<Rightarrow> bytes \<Rightarrow> handler \<Rightarrow> handler" where
  "on_header name val h =
     h\<lparr>environ := (environ h)(header_key name \<mapsto> Str val),
       headers := headers h @ [(replace_char (CHR ''_'') (CHR ''-'') (header_key name), val)]\<rparr>"

text \<open>\<open>on_body\<close> (lines 65-66).\<close>

definition on_body :: "bytes \<Rightarrow> handler \<Rightarrow> handler" where
  "on_body d h = h\<lparr>body := bio_write (body h) d\<rparr>"

text \<open>
  \<open>on_headers_complete\<close> (lines 68-73); the method is what \<open>self.parser.get_method()\<close>
  returns. A value under \<open>HTTP_EXPECT\<close> that is not a string has no \<open>lower\<close>.
\<close>

definition on_headers_complete :: "bytes \<Rightarrow> handler \<Rightarrow> handler \<times> exn option" where
  "on_headers_complete method h =
     (let h1 = h\<lparr>environ := (environ h)(''REQUEST_METHOD'' \<mapsto> Str method)\<rparr> in
      case environ h1 ''HTTP_EXPECT'' of
        None \<Rightarrow> (h1, None)
      | Some (Str v) \<Rightarrow>
          (if lower v = ''100-continue''
           then (sendall (''HTTP/1.1 100 Continue'' @ crlf @ crlf) h1, None)
           else (h1, None))
      | Some _ \<Rightarrow> (h1, Some (AttributeError ''lower'')))"

text \<open>\<open>start_response\<close> (lines 94-107).\<close>

definition start_response ::
  "handler \<Rightarrow> string \<Rightarrow> (string \<times> string) list \<Rightarrow> exn option \<Rightarrow> exn + handler" where
  "start_response h status hs exc_info =
     (case exc_info of
        Some e \<Rightarrow>
          if response h \<noteq> None then Inl e
          else Inr (h\<lparr>response := Some (status, hs)\<rparr>)
      | None \<Rightarrow>
          if response h \<noteq> None
          then Inl (AssertionError ''start_response called a second time without exc_info'')
          else Inr (h\<lparr>response := Some (status, hs)\<rparr>))"

text \<open>
  \<open>write_response\<close> (lines 117-140). \<open>headers\<close> is the list object stored in
  \<open>self.response\<close>, so the two \<open>append\<close>s change the stored response as well. The iterable is
  given by its chunks and by the exception that ends it, if any.
\<close>

fun send_chunks :: "bytes list \<Rightarrow> handler \<Rightarrow> handler" where
  "send_chunks [] h = h"
| "send_chunks (chunk # rest) h = send_chunks rest (if chunk \<noteq> [] then sendall chunk h else h)"

definition write_response :: "handler \<Rightarrow> bytes list \<Rightarrow> exn option \<Rightarrow> handler \<times> exn option" where
  "write_response h chunks fails =
     (case response h of
        None \<Rightarrow> (h, Some (KeyError ''status''))
      | Some (status, hs) \<Rightarrow>
          (let has_date = list_ex (\<lambda>x. lower (fst x) = ''date'') hs;
               hs1 = (if \<not> has_date then hs @ [(''Date'', now h)] else hs);
               hs2 = hs1 @ [(''Server'', ''Starman/'' @ version (options h))];
               header_data = (''HTTP/1.1 '' @ status) # map (\<lambda>(n, v). n @ '': '' @ v) hs2;
               h1 = sendall (join crlf header_data @ crlf @ crlf)
                      (h\<lparr>response := Some (status, hs2)\<rparr>)
           in (send_chunks chunks h1, fails)))"

text \<open>
  \<open>handle_request\<close> (lines 79-92). \<open>run_steps\<close> plays the calls the application makes;
  \<open>error_response\<close> is the body of the \<open>except Exception\<close> clause. When the application
  raised, \<open>resp_iter\<close> was never assigned and the \<open>finally\<close> clause raises on reading it.
\<close>

fun run_steps :: "app_step list \<Rightarrow> handler \<Rightarrow> handler \<times> exn option" where
  "run_steps [] h = (h, None)"
| "run_steps (Start_response status hs exc_info # rest) h =
     (case start_response h status hs exc_info of
        Inl e \<Rightarrow> (h, Some e)
      | Inr h1 \<Rightarrow> run_steps rest h1)"
| "run_steps (Write d # rest) h = run_steps rest (sendall d h)"

definition error_response :: "handler \<Rightarrow> handler \<times> exn option" where
  "error_response h =
     (case (if response h = None
            then start_response h ''500 Internal Server Error'' [] None
            else Inr h) of
        Inl e \<Rightarrow> (h, Some e)
      | Inr h1 \<Rightarrow> write_response h1 [''Internal Server Error''] None)"

definition handle_request :: "handler \<Rightarrow> handler \<times> exn option" where
  "handle_request h0 =
     (let h = h0\<lparr>app_calls := Suc (app_calls h0)\<rparr>;
          (steps, result) = app h (environ h) (buf (body h));
          (h1, raised) = run_steps steps h
      in case (raised, result) of
           (Some e, _) \<Rightarrow>
             (fst (error_response h1), Some (UnboundLocalError ''resp_iter''))
         | (None, App_raises e) \<Rightarrow>
             (fst (error_response h1), Some (UnboundLocalError ''resp_iter''))
         | (None, App_returns chunks fails has_close) \<Rightarrow>
             (case write_response h1 chunks fails of
                (h2, None) \<Rightarrow> (h2, None)
              | (h2, Some e) \<Rightarrow> error_response h2))"

text \<open>\<open>on_message_complete\<close> (lines 75-77).\<close>

definition on_message_complete :: "handler \<Rightarrow> handler \<times> exn option" where
  "on_message_complete h = handle_request (h\<lparr>body := bio_seek (body h) 0\<rparr>)"

text \<open>
  \<open>self.parser.feed_data(data)\<close>: the callbacks of the chunk run in order; an exception
  leaving a callback stops the parser, which raises its own error (a subclass of
  \<open>HttpParserError\<close>) in its place.
\<close>

fun callback :: "event \<Rightarrow> handler \<Rightarrow> handler \<times> exn option" where
  "callback Message_begin h = (on_message_begin h, None)"
| "callback (Url url) h = (on_url url h, None)"
| "callback (Header name val) h = (on_header name val h, None)"
| "callback (Headers_complete method) h = on_headers_complete method h"
| "callback (Body d) h = (on_body d h, None)"
| "callback Message_complete h = on_message_complete h"

fun feed_events :: "event list \<Rightarrow> handler \<Rightarrow> handler \<times> bool" where
  "feed_events [] h = (h, False)"
| "feed_events (ev # evs) h =
     (case callback ev h of
        (h1, None) \<Rightarrow> feed_events evs h1
      | (h1, Some e) \<Rightarrow> (h1, True))"

definition feed_data :: "event list \<Rightarrow> bool \<Rightarrow> handler \<Rightarrow> handler \<times> exn option" where
  "feed_data evs rejected h =
     (case feed_events evs h of
        (h1, True) \<Rightarrow> (h1, Some HttpParserError)
      | (h1, False) \<Rightarrow> (h1, if rejected then Some HttpParserError else None))"

text \<open>
  \<open>handle\<close> (lines 145-165): the \<open>while True\<close> loop over the \<open>recv\<close>s of the connection, then
  \<open>self.client.close()\<close>.
\<close>

fun handle_loop :: "recv list \<Rightarrow> handler \<Rightarrow> handler" where
  "handle_loop [] h = h"
| "handle_loop (Recv_fails e # rest) h = h"
| "handle_loop (Data evs rejected # rest) h =
     (case feed_data evs rejected h of
        (h1, Some e) \<Rightarrow> h1
      | (h1, None) \<Rightarrow> if disable_keepalive (options h1) then h1 else handle_loop rest h1)"

definition handle :: "recv list \<Rightarrow> handler \<Rightarrow> handler" where
  "handle script h = (handle_loop script h)\<lparr>closed := True\<rparr>"

subsection \<open>\<open>Worker\<close>\<close>

text \<open>
  A listening socket is the queue of what its next \<open>accept\<close> calls produce: a connection
  (local address, peer address and what the peer sends) or a \<open>socket.error\<close>. On an empty
  queue \<open>accept\<close> waits. \<open>served\<close> keeps the handler of every connection after \<open>handle\<close>
  returned, in order; it is an observation, not an attribute.
\<close>

datatype accept =
    Connection "string \<times> nat" "string \<times> nat" "recv list"
  | Accept_fails errno

record worker =
  w_app :: application
  w_options :: config
  sockets :: "accept list list"
  requests_processed :: int
  date :: string
  served :: "handler list"

text \<open>\<open>Worker.__init__\<close> (lines 168-173).\<close>

definition new_worker :: "application \<Rightarrow> config \<Rightarrow> accept list list \<Rightarrow> string \<Rightarrow> worker" where
  "new_worker a opts socks d =
     \<lparr>w_app = a, w_options = opts, sockets = socks, requests_processed = 0, date = d,
      served = []\<rparr>"

text \<open>The \<open>while\<close> loop of \<open>run\<close> (lines 185-194).\<close>

function accept_loop :: "worker \<Rightarrow> worker outcome" where
  "accept_loop w =
     (if requests_processed w < max_requests (w_options w) then
        (case sockets w of
           [] \<Rightarrow> Raised IndexError
         | s0 # others \<Rightarrow>
             (case s0 of
                [] \<Rightarrow> Hangs
              | Accept_fails e # queue \<Rightarrow>
                  if e \<in> {EAGAIN, ECONNABORTED, EPROTO}
                  then accept_loop (w\<lparr>sockets := queue # others\<rparr>)
                  else Raised (OSError e)
              | Connection client_sockname client_addr script # queue \<Rightarrow>
                  accept_loop
                    (w\<lparr>sockets := queue # others,
                       requests_processed := requests_processed w + 1,
                       served := served w @
                         [handle script
                            (new_handler (w_app w) client_sockname client_addr (w_options w)
                               (date w))]\<rparr>)))
      else Returned w)"
  by pat_completeness auto
termination
  by (relation "measure (\<lambda>w. length (hd (sockets w)))") auto

declare accept_loop.simps [simp del]

text \<open>
  The names bound at the top level of \<open>worker.py\<close> (its imports, lines 1-14, and its two
  classes). \<open>run\<close> (lines 175-196) reads the global \<open>signal\<close> at line 180, before the loop.
\<close>

definition worker_globals :: "string list" where
  "worker_globals =
     [''os'', ''sys'', ''socket'', ''errno'', ''time'', ''io'', ''formatdate'',
      ''HttpRequestParser'', ''HttpParserError'', ''setproctitle'', ''RequestHandler'',
      ''Worker'']"

definition run :: "worker \<Rightarrow> worker outcome" where
  "run w =
     (if ''signal'' \<notin> set worker_globals then Raised (NameError ''signal'')
      else accept_loop w)"

section \<open>Inputs and observations used by the properties\<close>

text \<open>
  \<open>control\<close> is the part of the master that only \<open>check_signals\<close> and the signal handlers
  write; \<open>returned\<close> and \<open>signalled\<close> read a result and the signal log off an outcome.
\<close>

definition control :: "master \<Rightarrow> int \<times> bool \<times> bool \<times> bool \<times> bool" where
  "control m = (worker_count m, running m, quit_received m, ttin_received m, ttou_received m)"

definition returned :: "'a outcome \<Rightarrow> 'a option" where
  "returned r = (case r of Returned x \<Rightarrow> Some x | Raised e \<Rightarrow> None | Hangs \<Rightarrow> None)"

definition signalled :: "master outcome \<Rightarrow> pid list option" where
  "signalled r = map_option (\<lambda>m. map fst (signals (sys m))) (returned r)"

text \<open>
  A master with three running workers, one more than desired (\<open>excess_master\<close>) or as many as
  desired (\<open>steady_master\<close>), and configurations asking for one worker and for none.
\<close>

definition three_children :: os_state where
  "three_children =
     \<lparr>children = [101, 102, 103], exited = [], signals = [], next_pid = 104, clock = 0,
      proc_limit = 64\<rparr>"

definition excess_master :: master where
  "excess_master =
     \<lparr>workers = [(101, 0), (102, 0), (103, 0)], running = True, worker_count = 2,
      hup_received = False, quit_received = False, ttin_received = False,
      ttou_received = False, sys = three_children\<rparr>"

definition steady_master :: master where
  "steady_master = excess_master\<lparr>worker_count := 3\<rparr>"

definition no_children :: os_state where
  "no_children =
     \<lparr>children = [], exited = [], signals = [], next_pid = 101, clock = 0, proc_limit = 64\<rparr>"

definition one_worker_config :: config where
  "one_worker_config =
     \<lparr>opt_workers = 1, max_requests = 1000, disable_keepalive = False, version = ''1.0'',
      listen = [''0.0.0.0:5000'']\<rparr>"

definition zero_workers_config :: config where
  "zero_workers_config = one_worker_config\<lparr>opt_workers := 0\<rparr>"

text \<open>
  Three applications: one that answers \<open>200 OK\<close> with the body \<open>hi\<close>, one that raises at
  once, and one whose iterable fails after its first chunk; a new handler for a local
  connection; a request in one piece and the same request cut in two \<open>recv\<close>s.
\<close>

definition gmt :: string where
  "gmt = ''Thu, 01 Jan 1970 00:00:00 GMT''"

definition keepalive_config :: config where
  "keepalive_config =
     \<lparr>opt_workers = 1, max_requests = 3, disable_keepalive = False, version = ''1.0'',
      listen = [''0.0.0.0:5000'']\<rparr>"

definition no_keepalive_config :: config where
  "no_keepalive_config = keepalive_config\<lparr>disable_keepalive := True\<rparr>"

definition hello_app :: application where
  "hello_app env input = ([Start_response ''200 OK'' [] None], App_returns [''hi''] None False)"

definition raising_app :: application where
  "raising_app env input = ([], App_raises (AppError ''boom''))"

definition late_raising_app :: application where
  "late_raising_app env input =
     ([Start_response ''200 OK'' [] None],
      App_returns [''abc''] (Some (AppError ''boom'')) True)"

definition fresh_handler :: "application \<Rightarrow> config \<Rightarrow> handler" where
  "fresh_handler a opts = new_handler a (''127.0.0.1'', 5000) (''127.0.0.1'', 40000) opts gmt"

definition split_request :: "recv list" where
  "split_request =
     [Data [Message_begin, Url ''/'', Header ''Host'' ''example''] False,
      Data [Headers_complete ''GET'', Message_complete] False]"

definition hello_request :: "event list" where
  "hello_request =
     [Message_begin, Url ''/'', Header ''Host'' ''example'', Headers_complete ''GET'',
      Message_complete]"

text \<open>
  \<open>expect_is_text\<close> holds when \<open>HTTP_EXPECT\<close> is absent or a string, as the callbacks leave
  it; \<open>add_headers\<close> runs \<open>on_header\<close> over a list of headers.
\<close>

definition expect_is_text :: "handler \<Rightarrow> bool" where
  "expect_is_text h =
     (case environ h ''HTTP_EXPECT'' of None \<Rightarrow> True | Some (Str v) \<Rightarrow> True | Some _ \<Rightarrow> False)"

definition add_headers :: "(bytes \<times> bytes) list \<Rightarrow> handler \<Rightarrow> handler" where
  "add_headers hs h = foldl (\<lambda>h nv. on_header (fst nv) (snd nv) h) h hs"

text \<open>
  What an accept queue holds (\<open>is_connection\<close>, and \<open>retried\<close> for the entries after which
  the loop goes on), what a worker's outcome shows (the connections it counted, the requests
  for which the application was called), and some workers: their peers send one request
  each, except the silent one, which closes at once.
\<close>

fun is_connection :: "accept \<Rightarrow> bool" where
  "is_connection (Connection client_sockname client_addr script) = True"
| "is_connection (Accept_fails e) = False"

fun retried :: "accept \<Rightarrow> bool" where
  "retried (Connection client_sockname client_addr script) = True"
| "retried (Accept_fails e) = (e \<in> {EAGAIN, ECONNABORTED, EPROTO})"

definition requests_served :: "worker outcome \<Rightarrow> nat option" where
  "requests_served r = map_option (\<lambda>w. sum_list (map app_calls (served w))) (returned r)"

definition connections_accepted :: "worker outcome \<Rightarrow> int option" where
  "connections_accepted r = map_option requests_processed (returned r)"

definition silent_connection :: accept where
  "silent_connection = Connection (''127.0.0.1'', 5000) (''127.0.0.1'', 40000) []"

definition hello_connection :: accept where
  "hello_connection =
     Connection (''127.0.0.1'', 5000) (''127.0.0.1'', 40001) [Data hello_request False]"

definition quota_worker :: worker where
  "quota_worker =
     new_worker hello_app no_keepalive_config
       [[silent_connection, hello_connection, hello_connection, hello_connection]] gmt"

definition three_requests_worker :: worker where
  "three_requests_worker =
     new_worker hello_app no_keepalive_config
       [[hello_connection, hello_connection, hello_connection, hello_connection]] gmt"

definition retry_worker :: worker where
  "retry_worker =
     new_worker hello_app keepalive_config
       [[hello_connection, Accept_fails EAGAIN, silent_connection, hello_connection,
         hello_connection]] gmt"

text \<open>
  A host without \<open>SERVER_STARTER_PORT\<close> where every bind succeeds, a configuration with a TCP
  and a UNIX listen address, and a worker holding two sockets, the first with nothing pending.
\<close>

definition plain_host :: host where
  "plain_host =
     \<lparr>server_starter_port = None,
      py_int = (\<lambda>s. if s = ''5000'' then Some 5000 else None),
      fromfd_error = (\<lambda>fd. None),
      remove_error = (\<lambda>path. Some ENOENT),
      bind_error = (\<lambda>ep. None)\<rparr>"

definition two_endpoint_config :: config where
  "two_endpoint_config = keepalive_config\<lparr>listen := [''0.0.0.0:5000'', ''/tmp/starman.sock'']\<rparr>"

definition two_socket_worker :: worker where
  "two_socket_worker = new_worker hello_app two_endpoint_config [[], [hello_connection]] gmt"

section \<open>Properties\<close>

subsection \<open>Supervision\<close>

lemma kill_each_control: "control (kill_each sig ps m) = control m"
  by (induction ps arbitrary: m) (auto simp: control_def split: sum.splits)

lemma forget_worker_control: "control (forget_worker p m) = control m"
  by (simp add: control_def forget_worker_def)

lemma reap_loop_control:
  "reap_loop block opts m = Returned m' \<Longrightarrow> control m' = control m"
proof (induction block opts m rule: reap_loop.induct)
  case (1 block opts m)
  show ?case
  proof (cases "waitpid (sys m) opts")
    case (WaitReturns p status os')
    define m1 where "m1 = m\<lparr>sys := os'\<rparr>"
    define m2 where "m2 = forget_worker p m1"
    have c1: "control m1 = control m" by (simp add: m1_def control_def)
    have c2: "control m2 = control m" using c1 by (simp add: m2_def forget_worker_control)
    have unfold: "reap_loop block opts m =
        (if p = 0 \<and> \<not> block then Returned m1
         else if block \<and> workers m2 = [] then Returned m2
         else if m2 = m then Hangs else reap_loop block opts m2)"
      by (subst reap_loop.simps) (simp add: WaitReturns m1_def m2_def Let_def)
    show ?thesis
    proof (cases "p = 0 \<and> \<not> block")
      case True
      have "reap_loop block opts m = Returned m1"
        by (simp only: unfold if_P [OF True])
      with "1.prems" c1 show ?thesis by simp
    next
      case nb: False
      show ?thesis
      proof (cases "block \<and> workers m2 = []")
        case True
        have "reap_loop block opts m = Returned m2"
          by (simp only: unfold if_not_P [OF nb] if_P [OF True])
        with "1.prems" c2 show ?thesis by simp
      next
        case ne: False
        show ?thesis
        proof (cases "m2 = m")
          case True
          have "reap_loop block opts m = Hangs"
            by (simp only: unfold if_not_P [OF nb] if_not_P [OF ne] if_P [OF True])
          with "1.prems" show ?thesis by simp
        next
          case False
          have "reap_loop block opts m = reap_loop block opts m2"
            by (simp only: unfold if_not_P [OF nb] if_not_P [OF ne] if_not_P [OF False])
          with "1.prems" have rec: "reap_loop block opts m2 = Returned m'" by simp
          from "1.IH" [OF WaitReturns m1_def nb m2_def ne False rec] c2 show ?thesis by simp
        qed
      qed
    qed
  next
    case (WaitRaises e)
    with "1.prems" show ?thesis
      by (subst (asm) reap_loop.simps) (simp split: if_splits)
  next
    case WaitBlocks
    with "1.prems" show ?thesis
      by (subst (asm) reap_loop.simps) simp
  qed
qed

lemma spawn_worker_control:
  "spawn_worker m = Returned m' \<Longrightarrow> control m' = control m"
  by (auto simp: spawn_worker_def control_def split: sum.splits prod.splits)

lemma spawn_workers_control:
  "spawn_workers m = Returned m' \<Longrightarrow> control m' = control m"
proof (induction m rule: spawn_workers.induct)
  case (1 m)
  show ?case
  proof (cases "int (length (workers m)) < worker_count m")
    case True
    with "1.prems" obtain m1 where s: "spawn_worker m = Returned m1"
      and r: "spawn_workers m1 = Returned m'"
      by (subst (asm) spawn_workers.simps) (simp split: outcome.splits)
    from "1.IH" [OF True s r] spawn_worker_control [OF s] show ?thesis by simp
  next
    case False
    with "1.prems" show ?thesis
      by (subst (asm) spawn_workers.simps) simp
  qed
qed

lemma spawn_times_control:
  "spawn_times n m = Returned m' \<Longrightarrow> control m' = control m"
proof (induction n arbitrary: m)
  case 0
  then show ?case by simp
next
  case (Suc n)
  then obtain m1 where s: "spawn_worker m = Returned m1" and r: "spawn_times n m1 = Returned m'"
    by (auto simp: and_then_def split: outcome.splits)
  from Suc.IH [OF r] spawn_worker_control [OF s] show ?case by simp
qed

lemma kill_for_each_control: "control (kill_for_each ps m) = control m"
  by (induction ps arbitrary: m) (simp_all add: kill_workers_def kill_each_control)

lemma graceful_restart_control:
  "graceful_restart m = Returned m' \<Longrightarrow> control m' = control m"
  by (auto simp: graceful_restart_def and_then_def reap_workers_def kill_workers_def
           split: outcome.splits
           dest!: reap_loop_control spawn_workers_control simp: kill_each_control)

lemma maintain_worker_count_control:
  "maintain_worker_count m = Returned m' \<Longrightarrow> control m' = control m"
  by (auto simp: maintain_worker_count_def Let_def kill_for_each_control
           split: if_splits dest: spawn_times_control)

lemma reap_workers_control:
  "reap_workers block m = Returned m' \<Longrightarrow> control m' = control m"
  by (auto simp: reap_workers_def dest: reap_loop_control)

text \<open>
  Claim C1 (reconciliation signals exactly the oldest excess workers). Three workers 101, 102
  and 103 run and two are desired, so the excess is one and the oldest worker is 101. The
  loop over \<open>pids_to_kill\<close> calls \<open>kill_workers\<close>, which signals every worker of the map:
  102 and 103 receive \<open>SIGTERM\<close> as well.
\<close>

theorem maintain_worker_count_signals_every_worker:
  "take 1 (keys (workers excess_master)) = [101] \<and>
   signalled (maintain_worker_count excess_master) = Some [101, 102, 103]"
  by (simp add: maintain_worker_count_def excess_master_def three_children_def keys_def
        kill_workers_def os_kill_def signalled_def returned_def)

lemma reap_workers_waits:
  "children (sys m) \<noteq> [] \<Longrightarrow> exited (sys m) = [] \<Longrightarrow> reap_workers False m = Hangs"
  unfolding reap_workers_def
  by (subst reap_loop.simps) (simp add: waitpid_def WNOHANG_def)

text \<open>
  Claim C4 (the reap of a tick does not block). With \<open>block = False\<close> the call passes
  \<open>options = 0\<close> to \<open>waitpid\<close>. Three workers run and none has exited: \<open>reap_workers\<close>
  waits for an exit, and so does the tick, which does not reach the reconciliation before a
  worker exits.
\<close>

theorem reap_workers_waits_for_an_exit:
  "exited (sys steady_master) = [] \<and>
   reap_workers False steady_master = Hangs \<and> tick steady_master = Hangs"
proof -
  have r: "reap_workers False steady_master = Hangs"
    by (simp add: reap_workers_def steady_master_def excess_master_def three_children_def)
       (subst reap_loop.simps, simp add: waitpid_def WNOHANG_def)
  have c: "check_signals steady_master = Returned steady_master"
    by (simp add: check_signals_def and_then_def steady_master_def excess_master_def)
  show ?thesis
    using r c
    by (simp add: tick_def and_then_def)
       (simp add: steady_master_def excess_master_def three_children_def)
qed

text \<open>
  Claim C6, as stated, at construction: the desired worker count is whatever the
  configuration holds, here 0.
\<close>

theorem init_takes_any_worker_count:
  "worker_count (init zero_workers_config no_children) = 0"
  by (simp add: init_def zero_workers_config_def one_worker_config_def)

lemma check_signals_count:
  assumes "check_signals m = Returned m'"
  shows "worker_count m' =
           (let c = (if ttin_received m then worker_count m + 1 else worker_count m)
            in if ttou_received m \<and> 1 < c then c - 1 else c)
         \<and> \<not> ttin_received m' \<and> \<not> ttou_received m'"
proof -
  from assms obtain m1 where
    m1: "(if hup_received m then graceful_restart (m\<lparr>hup_received := False\<rparr>) else Returned m)
           = Returned m1"
    by (auto simp: check_signals_def and_then_def split: outcome.splits)
  have "control m1 = control m"
  proof (cases "hup_received m")
    case True
    with m1 have "graceful_restart (m\<lparr>hup_received := False\<rparr>) = Returned m1" by simp
    from graceful_restart_control [OF this] show ?thesis by (simp add: control_def)
  next
    case False
    with m1 show ?thesis by simp
  qed
  then have c: "worker_count m1 = worker_count m" "ttin_received m1 = ttin_received m"
    "ttou_received m1 = ttou_received m"
    by (simp_all add: control_def)
  define m2 where
    "m2 = (if quit_received m1 then m1\<lparr>quit_received := False, running := False\<rparr> else m1)"
  define m3 where
    "m3 = (if ttin_received m2
           then m2\<lparr>ttin_received := False, worker_count := worker_count m2 + 1\<rparr> else m2)"
  define m4 where
    "m4 = (if ttou_received m3
           then (if worker_count m3 > 1
                 then m3\<lparr>ttou_received := False, worker_count := worker_count m3 - 1\<rparr>
                 else m3\<lparr>ttou_received := False\<rparr>)
           else m3)"
  have "check_signals m = Returned m4"
    by (simp add: check_signals_def m1 and_then_def Let_def m2_def m3_def m4_def)
  with assms have m': "m' = m4" by simp
  have c2: "worker_count m2 = worker_count m" "ttin_received m2 = ttin_received m"
    "ttou_received m2 = ttou_received m"
    using c by (simp_all add: m2_def)
  have c3: "worker_count m3 = (if ttin_received m then worker_count m + 1 else worker_count m)"
    "\<not> ttin_received m3" "ttou_received m3 = ttou_received m"
    using c2 by (simp_all add: m3_def)
  have c4: "worker_count m4 =
              (if ttou_received m3 \<and> 1 < worker_count m3 then worker_count m3 - 1
               else worker_count m3)"
    "\<not> ttin_received m4" "\<not> ttou_received m4"
    using c3(2) by (simp_all add: m4_def)
  show ?thesis
    unfolding m' using c4 c3 by (simp add: Let_def)
qed

lemma tick_control_floor:
  assumes "tick m = Returned m'" and "1 \<le> worker_count m"
  shows "1 \<le> worker_count m'"
proof -
  from assms(1) obtain m1 m2 m3 where
    a: "check_signals m = Returned m1" and b: "reap_workers False m1 = Returned m2"
    and c: "maintain_worker_count m2 = Returned m3" and d: "m' = sleep 1 m3"
    by (auto simp: tick_def and_then_def split: outcome.splits)
  from check_signals_count [OF a] assms(2) have "1 \<le> worker_count m1"
    by (auto simp: Let_def split: if_splits)
  moreover from reap_workers_control [OF b] have "worker_count m2 = worker_count m1"
    by (simp add: control_def)
  moreover from maintain_worker_count_control [OF c] have "worker_count m3 = worker_count m2"
    by (simp add: control_def)
  ultimately show ?thesis using d by (simp add: sleep_def)
qed

lemma ticks_floor:
  "ticks fuel m = Some (Returned m') \<Longrightarrow> 1 \<le> worker_count m \<Longrightarrow> 1 \<le> worker_count m'"
proof (induction fuel arbitrary: m)
  case 0
  then show ?case by (simp split: if_splits)
next
  case (Suc fuel)
  show ?case
  proof (cases "running m")
    case False
    with Suc.prems show ?thesis by simp
  next
    case True
    with Suc.prems obtain m1 where t: "tick m = Returned m1"
      and r: "ticks fuel m1 = Some (Returned m')"
      by (auto split: outcome.splits)
    from Suc.IH [OF r tick_control_floor [OF t Suc.prems(2)]] show ?thesis .
  qed
qed

text \<open>
  Claim C6, amended (the desired worker count never drops below 1 when it starts at 1 or
  more). With a configured count of at least 1 the count is at least 1 after construction; no
  signal handler changes it; a \<open>check_signals\<close> that returns keeps it at least 1, adds exactly
  1 for a consumed scale-up, subtracts exactly 1 for a consumed scale-down when the count
  exceeds 1 and leaves 1 at 1, and clears both flags; \<open>check_signals\<close> returns whenever no
  reload is pending; and the count is still at least 1 after any number of ticks.
\<close>

theorem desired_count_floor:
  "(1 \<le> opt_workers opts \<longrightarrow> 1 \<le> worker_count (init opts os)) \<and>
   worker_count (handle_hup m) = worker_count m \<and>
   worker_count (handle_quit m) = worker_count m \<and>
   worker_count (handle_ttin m) = worker_count m \<and>
   worker_count (handle_ttou m) = worker_count m \<and>
   (1 \<le> worker_count m \<and> check_signals m = Returned m' \<longrightarrow>
      1 \<le> worker_count m' \<and> \<not> ttin_received m' \<and> \<not> ttou_received m' \<and>
      (ttin_received m \<and> \<not> ttou_received m \<longrightarrow> worker_count m' = worker_count m + 1) \<and>
      (\<not> ttin_received m \<and> ttou_received m \<and> 1 < worker_count m \<longrightarrow>
         worker_count m' = worker_count m - 1) \<and>
      (\<not> ttin_received m \<and> ttou_received m \<and> worker_count m = 1 \<longrightarrow> worker_count m' = 1) \<and>
      (ttin_received m \<and> ttou_received m \<longrightarrow> worker_count m' = worker_count m + 1 - 1) \<and>
      (\<not> ttin_received m \<and> \<not> ttou_received m \<longrightarrow> worker_count m' = worker_count m)) \<and>
   (\<not> hup_received m \<longrightarrow> (\<exists>m1. check_signals m = Returned m1)) \<and>
   (1 \<le> worker_count m \<and> ticks fuel m = Some (Returned m') \<longrightarrow> 1 \<le> worker_count m')"
proof -
  have i: "1 \<le> opt_workers opts \<longrightarrow> 1 \<le> worker_count (init opts os)"
    by (simp add: init_def)
  have h: "worker_count (handle_hup m) = worker_count m"
    "worker_count (handle_quit m) = worker_count m"
    "worker_count (handle_ttin m) = worker_count m"
    "worker_count (handle_ttou m) = worker_count m"
    by (simp_all add: handle_hup_def handle_quit_def handle_ttin_def handle_ttou_def)
  have c: "1 \<le> worker_count m \<and> check_signals m = Returned m' \<longrightarrow>
      1 \<le> worker_count m' \<and> \<not> ttin_received m' \<and> \<not> ttou_received m' \<and>
      (ttin_received m \<and> \<not> ttou_received m \<longrightarrow> worker_count m' = worker_count m + 1) \<and>
      (\<not> ttin_received m \<and> ttou_received m \<and> 1 < worker_count m \<longrightarrow>
         worker_count m' = worker_count m - 1) \<and>
      (\<not> ttin_received m \<and> ttou_received m \<and> worker_count m = 1 \<longrightarrow> worker_count m' = 1) \<and>
      (ttin_received m \<and> ttou_received m \<longrightarrow> worker_count m' = worker_count m + 1 - 1) \<and>
      (\<not> ttin_received m \<and> \<not> ttou_received m \<longrightarrow> worker_count m' = worker_count m)"
  proof (intro impI, elim conjE)
    assume f: "1 \<le> worker_count m" and r: "check_signals m = Returned m'"
    from check_signals_count [OF r] f show "1 \<le> worker_count m' \<and> \<not> ttin_received m' \<and> \<not> ttou_received m' \<and>
      (ttin_received m \<and> \<not> ttou_received m \<longrightarrow> worker_count m' = worker_count m + 1) \<and>
      (\<not> ttin_received m \<and> ttou_received m \<and> 1 < worker_count m \<longrightarrow>
         worker_count m' = worker_count m - 1) \<and>
      (\<not> ttin_received m \<and> ttou_received m \<and> worker_count m = 1 \<longrightarrow> worker_count m' = 1) \<and>
      (ttin_received m \<and> ttou_received m \<longrightarrow> worker_count m' = worker_count m + 1 - 1) \<and>
      (\<not> ttin_received m \<and> \<not> ttou_received m \<longrightarrow> worker_count m' = worker_count m)"
      by (auto simp: Let_def split: if_splits)
  qed
  have t: "\<not> hup_received m \<longrightarrow> (\<exists>m1. check_signals m = Returned m1)"
    by (simp add: check_signals_def and_then_def Let_def)
  have l: "1 \<le> worker_count m \<and> ticks fuel m = Some (Returned m') \<longrightarrow> 1 \<le> worker_count m'"
    using ticks_floor by blast
  from i h c t l show ?thesis by blast
qed

theorem desired_count_floor_witness:
  "1 \<le> opt_workers one_worker_config \<and>
   1 \<le> worker_count (init one_worker_config no_children) \<and>
   check_signals (handle_ttou (init one_worker_config no_children))
     = Returned (init one_worker_config no_children) \<and>
   \<not> hup_received (handle_ttou (init one_worker_config no_children)) \<and>
   ticks 0 ((init one_worker_config no_children)\<lparr>running := False\<rparr>)
     = Some (Returned ((init one_worker_config no_children)\<lparr>running := False\<rparr>)) \<and>
   worker_count (init one_worker_config no_children) = 1"
proof -
  have a: "1 \<le> opt_workers one_worker_config" by (simp add: one_worker_config_def)
  have b: "check_signals (handle_ttou (init one_worker_config no_children))
             = Returned (init one_worker_config no_children)"
    by (simp add: check_signals_def and_then_def handle_ttou_def init_def one_worker_config_def)
  have c: "\<not> hup_received (handle_ttou (init one_worker_config no_children))"
    by (simp add: handle_ttou_def init_def)
  have d: "ticks 0 ((init one_worker_config no_children)\<lparr>running := False\<rparr>)
     = Some (Returned ((init one_worker_config no_children)\<lparr>running := False\<rparr>))"
    by simp
  have e: "ttou_received (handle_ttou (init one_worker_config no_children)) \<and>
           \<not> ttin_received (handle_ttou (init one_worker_config no_children)) \<and>
           worker_count (handle_ttou (init one_worker_config no_children)) = 1"
    by (simp add: handle_ttou_def init_def one_worker_config_def)
  from desired_count_floor [of one_worker_config no_children
        "handle_ttou (init one_worker_config no_children)"
        "init one_worker_config no_children" 0] a b c d e
  show ?thesis by simp
qed

subsection \<open>Requests and responses\<close>

text \<open>
  Claim C2, as stated (a failing application yields a 500 with an empty body): the bytes on
  the wire after the blank line are \<open>Internal Server Error\<close>.
\<close>

theorem error_response_carries_a_body:
  "wire (fst (handle_request (fresh_handler raising_app keepalive_config))) =
     ''HTTP/1.1 500 Internal Server Error'' @ crlf @
     ''Date: Thu, 01 Jan 1970 00:00:00 GMT'' @ crlf @
     ''Server: Starman/1.0'' @ crlf @ crlf @
     ''Internal Server Error''"
  by (simp add: handle_request_def fresh_handler_def new_handler_def raising_app_def
        error_response_def start_response_def write_response_def sendall_def lower_def
        keepalive_config_def gmt_def crlf_def)

text \<open>
  Claim C2, amended. When no response is stored in the handler (as for the first request of a
  connection) and the application raises without having called \<open>start_response\<close>, the
  bytes written for the request are the status line \<open>500 Internal Server Error\<close>, a
  \<open>Date\<close> and a \<open>Server\<close> header, the blank line and the body \<open>Internal Server Error\<close>.
\<close>

theorem raise_before_start_gives_500:
  assumes "response h = None"
    and "app h (environ h) (buf (body h)) = ([], App_raises e)"
  shows "wire (fst (handle_request h)) =
           wire h @ ''HTTP/1.1 500 Internal Server Error'' @ crlf @
           ''Date: '' @ now h @ crlf @
           ''Server: Starman/'' @ version (options h) @ crlf @ crlf @
           ''Internal Server Error''"
  using assms
  by (simp add: handle_request_def error_response_def start_response_def write_response_def
        sendall_def lower_def)

theorem raise_before_start_gives_500_witness:
  "response (fresh_handler raising_app keepalive_config) = None \<and>
   wire (fst (handle_request (fresh_handler raising_app keepalive_config))) =
     wire (fresh_handler raising_app keepalive_config) @
     ''HTTP/1.1 500 Internal Server Error'' @ crlf @
     ''Date: '' @ gmt @ crlf @ ''Server: Starman/'' @ ''1.0'' @ crlf @ crlf @
     ''Internal Server Error''"
proof -
  have a: "response (fresh_handler raising_app keepalive_config) = None"
    by (simp add: fresh_handler_def new_handler_def)
  have b: "app (fresh_handler raising_app keepalive_config)
             (environ (fresh_handler raising_app keepalive_config))
             (buf (body (fresh_handler raising_app keepalive_config)))
           = ([], App_raises (AppError ''boom''))"
    by (simp add: fresh_handler_def new_handler_def raising_app_def)
  have c: "now (fresh_handler raising_app keepalive_config) = gmt"
    "version (options (fresh_handler raising_app keepalive_config)) = ''1.0''"
    by (simp_all add: fresh_handler_def new_handler_def keepalive_config_def)
  from raise_before_start_gives_500 [OF a b] a c show ?thesis by simp
qed

text \<open>
  Claim C5 (nothing more is written after a failure in a started response). The application
  starts a \<open>200 OK\<close> response and its iterable fails after the chunk \<open>abc\<close>. The handler
  then writes a second status line, the headers again and an error body, the exception is
  swallowed, and under keep-alive the connection goes on to the next request.
\<close>

theorem late_failure_writes_a_second_response:
  "wire (fst (handle_request (fresh_handler late_raising_app keepalive_config))) =
     ''HTTP/1.1 200 OK'' @ crlf @
     ''Date: Thu, 01 Jan 1970 00:00:00 GMT'' @ crlf @
     ''Server: Starman/1.0'' @ crlf @ crlf @
     ''abc'' @
     ''HTTP/1.1 200 OK'' @ crlf @
     ''Date: Thu, 01 Jan 1970 00:00:00 GMT'' @ crlf @
     ''Server: Starman/1.0'' @ crlf @
     ''Server: Starman/1.0'' @ crlf @ crlf @
     ''Internal Server Error'' \<and>
   snd (handle_request (fresh_handler late_raising_app keepalive_config)) = None \<and>
   app_calls (handle [Data hello_request False, Data hello_request False]
                (fresh_handler late_raising_app keepalive_config)) = 2"
proof -
  have w: "wire (fst (handle_request (fresh_handler late_raising_app keepalive_config))) =
     ''HTTP/1.1 200 OK'' @ crlf @
     ''Date: Thu, 01 Jan 1970 00:00:00 GMT'' @ crlf @
     ''Server: Starman/1.0'' @ crlf @ crlf @
     ''abc'' @
     ''HTTP/1.1 200 OK'' @ crlf @
     ''Date: Thu, 01 Jan 1970 00:00:00 GMT'' @ crlf @
     ''Server: Starman/1.0'' @ crlf @
     ''Server: Starman/1.0'' @ crlf @ crlf @
     ''Internal Server Error''"
    by (simp add: handle_request_def fresh_handler_def new_handler_def late_raising_app_def
        error_response_def start_response_def write_response_def sendall_def lower_def
        lower_char_def keepalive_config_def gmt_def crlf_def)
  have s: "snd (handle_request (fresh_handler late_raising_app keepalive_config)) = None"
    by (simp add: handle_request_def fresh_handler_def new_handler_def late_raising_app_def
        error_response_def start_response_def write_response_def sendall_def lower_def
        lower_char_def)
  have c: "app_calls (handle [Data hello_request False, Data hello_request False]
                (fresh_handler late_raising_app keepalive_config)) = 2"
    by (simp add: handle_def hello_request_def feed_data_def fresh_handler_def new_handler_def
        on_message_begin_def on_url_def on_header_def on_headers_complete_def
        on_message_complete_def handle_request_def late_raising_app_def
        error_response_def start_response_def write_response_def sendall_def lower_def
        lower_char_def keepalive_config_def partition_at_def header_key_def upper_def
        upper_char_def replace_char_def bio_seek_def new_bytesio_def)
  from w s c show ?thesis by blast
qed

text \<open>
  Claim C7 (a second \<open>start_response\<close> with \<open>exc_info\<close> replaces the stored response while
  nothing is on the wire). After a first call on a new handler nothing has been written, and
  a second call that carries \<open>exc_info\<close> raises the exception it was given.
\<close>

theorem second_start_response_raises:
  "(case start_response (fresh_handler a opts) status1 hs1 None of
      Inl x \<Rightarrow> False
    | Inr h1 \<Rightarrow> wire h1 = [] \<and>
               start_response h1 status2 hs2 (Some e) = Inl e)"
  by (simp add: start_response_def fresh_handler_def new_handler_def)

text \<open>
  Claim C8 (with keep-alive disabled, exactly one complete request per connection however
  the bytes are chunked). A request arrives in two \<open>recv\<close> chunks; the loop breaks after the
  first chunk, the application is never called and nothing is written before the close.
\<close>

theorem one_recv_ends_the_connection:
  "app_calls (handle split_request (fresh_handler hello_app no_keepalive_config)) = 0 \<and>
   wire (handle split_request (fresh_handler hello_app no_keepalive_config)) = [] \<and>
   closed (handle split_request (fresh_handler hello_app no_keepalive_config))"
  by (simp add: handle_def split_request_def feed_data_def fresh_handler_def new_handler_def
        on_message_begin_def on_url_def on_header_def no_keepalive_config_def
        keepalive_config_def partition_at_def)

lemma header_key_not_path: "header_key n \<noteq> ''PATH_INFO''" "header_key n \<noteq> ''QUERY_STRING''"
  "header_key n \<noteq> ''REQUEST_METHOD''"
  by (auto simp: header_key_def Let_def)

lemma header_key_x_test: "header_key ''X-Test'' = ''HTTP_X_TEST''"
  by (simp add: header_key_def upper_def upper_char_def replace_char_def)

lemma feed_events_headers:
  "feed_events (map (\<lambda>nv. Header (fst nv) (snd nv)) hs @ rest) h
     = feed_events rest (add_headers hs h)"
  by (induction hs arbitrary: h) (simp_all add: add_headers_def)

lemma on_header_keeps:
  "environ (on_header n v h) ''PATH_INFO'' = environ h ''PATH_INFO''"
  "environ (on_header n v h) ''QUERY_STRING'' = environ h ''QUERY_STRING''"
  "expect_is_text h \<Longrightarrow> expect_is_text (on_header n v h)"
  using header_key_not_path [where n = n]
  by (auto simp: on_header_def expect_is_text_def split: option.splits env_value.splits)

lemma add_headers_keeps:
  "environ (add_headers hs h) ''PATH_INFO'' = environ h ''PATH_INFO'' \<and>
   environ (add_headers hs h) ''QUERY_STRING'' = environ h ''QUERY_STRING'' \<and>
   (expect_is_text h \<longrightarrow> expect_is_text (add_headers hs h))"
proof (induction hs arbitrary: h)
  case Nil
  then show ?case by (simp add: add_headers_def)
next
  case (Cons x hs)
  have "add_headers (x # hs) h = add_headers hs (on_header (fst x) (snd x) h)"
    by (simp add: add_headers_def)
  with Cons [where h = "on_header (fst x) (snd x) h"] on_header_keeps [where n = "fst x" and v = "snd x" and h = h]
  show ?case by simp
qed

lemma on_headers_complete_text:
  assumes "expect_is_text h"
  shows "snd (on_headers_complete m h) = None"
    and "k \<noteq> ''REQUEST_METHOD'' \<Longrightarrow> environ (fst (on_headers_complete m h)) k = environ h k"
    and "environ (fst (on_headers_complete m h)) ''REQUEST_METHOD'' = Some (Str m)"
  using assms
  by (auto simp: on_headers_complete_def expect_is_text_def sendall_def Let_def
           split: option.splits env_value.splits)

text \<open>
  Claim C9 (round trip of \<open>GET /path?x=1\<close> with header \<open>X-Test: v\<close>). Whatever the handler
  held before and whatever other headers precede \<open>X-Test\<close>, after the parser's events the
  path is \<open>/path\<close>, the query string is \<open>x=1\<close>, the lookup under the canonical name
  \<open>HTTP_X_TEST\<close> gives \<open>v\<close>, the method is \<open>GET\<close>, and no callback failed.
\<close>

theorem get_request_round_trip:
  "environ (fst (feed_data
      (Message_begin # Url ''/path?x=1'' # map (\<lambda>nv. Header (fst nv) (snd nv)) others
         @ [Header ''X-Test'' ''v'', Headers_complete ''GET''])
      False h)) ''PATH_INFO'' = Some (Str ''/path'') \<and>
   environ (fst (feed_data
      (Message_begin # Url ''/path?x=1'' # map (\<lambda>nv. Header (fst nv) (snd nv)) others
         @ [Header ''X-Test'' ''v'', Headers_complete ''GET''])
      False h)) ''QUERY_STRING'' = Some (Str ''x=1'') \<and>
   environ (fst (feed_data
      (Message_begin # Url ''/path?x=1'' # map (\<lambda>nv. Header (fst nv) (snd nv)) others
         @ [Header ''X-Test'' ''v'', Headers_complete ''GET''])
      False h)) (header_key ''X-Test'') = Some (Str ''v'') \<and>
   header_key ''X-Test'' = ''HTTP_X_TEST'' \<and>
   environ (fst (feed_data
      (Message_begin # Url ''/path?x=1'' # map (\<lambda>nv. Header (fst nv) (snd nv)) others
         @ [Header ''X-Test'' ''v'', Headers_complete ''GET''])
      False h)) ''REQUEST_METHOD'' = Some (Str ''GET'') \<and>
   snd (feed_data
      (Message_begin # Url ''/path?x=1'' # map (\<lambda>nv. Header (fst nv) (snd nv)) others
         @ [Header ''X-Test'' ''v'', Headers_complete ''GET''])
      False h) = None"
proof -
  define h1 where "h1 = on_url ''/path?x=1'' (on_message_begin h)"
  define h2 where "h2 = add_headers others h1"
  define h3 where "h3 = on_header ''X-Test'' ''v'' h2"
  have p1: "environ h1 ''PATH_INFO'' = Some (Str ''/path'')"
    "environ h1 ''QUERY_STRING'' = Some (Str ''x=1'')"
    by (simp_all add: h1_def on_url_def partition_at_def)
  have e1: "expect_is_text h1"
    by (simp add: h1_def on_url_def on_message_begin_def expect_is_text_def partition_at_def)
  from add_headers_keeps [where hs = others and h = h1] p1 e1
  have p2: "environ h2 ''PATH_INFO'' = Some (Str ''/path'')"
    "environ h2 ''QUERY_STRING'' = Some (Str ''x=1'')" and e2: "expect_is_text h2"
    by (simp_all add: h2_def)
  from on_header_keeps [where n = "''X-Test''" and v = "''v''" and h = h2] p2 e2
  have p3: "environ h3 ''PATH_INFO'' = Some (Str ''/path'')"
    "environ h3 ''QUERY_STRING'' = Some (Str ''x=1'')" and e3: "expect_is_text h3"
    by (simp_all add: h3_def)
  have x3: "environ h3 (header_key ''X-Test'') = Some (Str ''v'')"
    by (simp add: h3_def on_header_def)
  have fe: "feed_events
      (Message_begin # Url ''/path?x=1'' # map (\<lambda>nv. Header (fst nv) (snd nv)) others
         @ [Header ''X-Test'' ''v'', Headers_complete ''GET'']) h
      = (fst (on_headers_complete ''GET'' h3), False)"
  proof -
    have hc: "on_headers_complete ''GET'' h3 = (fst (on_headers_complete ''GET'' h3), None)"
      using on_headers_complete_text(1) [OF e3, where m = "''GET''"]
      by (simp add: prod_eq_iff)
    have "feed_events
        (Message_begin # Url ''/path?x=1'' # map (\<lambda>nv. Header (fst nv) (snd nv)) others
           @ [Header ''X-Test'' ''v'', Headers_complete ''GET'']) h
        = feed_events [Header ''X-Test'' ''v'', Headers_complete ''GET''] h2"
      by (simp add: feed_events_headers h1_def h2_def)
    also have "\<dots> = (case on_headers_complete ''GET'' h3 of
                         (h1, None) \<Rightarrow> (h1, False) | (h1, Some e) \<Rightarrow> (h1, True))"
      by (simp add: h3_def)
    also have "\<dots> = (fst (on_headers_complete ''GET'' h3), False)"
      by (subst hc) simp
    finally show ?thesis .
  qed
  have fd: "feed_data
      (Message_begin # Url ''/path?x=1'' # map (\<lambda>nv. Header (fst nv) (snd nv)) others
         @ [Header ''X-Test'' ''v'', Headers_complete ''GET'']) False h
      = (fst (on_headers_complete ''GET'' h3), None)"
    unfolding feed_data_def fe by simp
  show ?thesis
    unfolding fd
    using on_headers_complete_text(2,3) [OF e3, where m = "''GET''"] p3 x3 header_key_x_test
      header_key_not_path [where n = "''X-Test''"]
    by simp
qed

subsection \<open>The accept loop\<close>

lemma accept_loop_done:
  "\<not> requests_processed w < max_requests (w_options w) \<Longrightarrow> accept_loop w = Returned w"
  by (subst accept_loop.simps) simp

lemma accept_loop_retry:
  "requests_processed w < max_requests (w_options w) \<Longrightarrow>
   sockets w = (Accept_fails e # queue) # others \<Longrightarrow>
   e \<in> {EAGAIN, ECONNABORTED, EPROTO} \<Longrightarrow>
   accept_loop w = accept_loop (w\<lparr>sockets := queue # others\<rparr>)"
  by (subst accept_loop.simps) simp

lemma accept_loop_connection:
  "requests_processed w < max_requests (w_options w) \<Longrightarrow>
   sockets w = (Connection client_sockname client_addr script # queue) # others \<Longrightarrow>
   accept_loop w =
     accept_loop
       (w\<lparr>sockets := queue # others,
          requests_processed := requests_processed w + 1,
          served := served w @
            [handle script
               (new_handler (w_app w) client_sockname client_addr (w_options w) (date w))]\<rparr>)"
  by (subst accept_loop.simps) simp

lemma hello_connection_served:
  "app_calls (handle [Data hello_request False]
                (new_handler hello_app client_sockname client_addr no_keepalive_config d)) = 1"
  by (simp add: handle_def hello_request_def feed_data_def
        new_handler_def on_message_begin_def on_url_def on_header_def on_headers_complete_def
        on_message_complete_def handle_request_def hello_app_def
        start_response_def write_response_def sendall_def
        partition_at_def header_key_def upper_def
        upper_char_def replace_char_def no_keepalive_config_def keepalive_config_def)

lemma silent_connection_served:
  "app_calls (handle [] (new_handler a client_sockname client_addr opts d)) = 0"
  by (simp add: handle_def new_handler_def)

text \<open>
  The loop on its own. The counter is incremented once for each accepted connection: when
  the first of the peers below closes without sending a request, the loop returns after the
  third connection, having served two requests, and the fourth connection stays in the queue.
\<close>

lemma quota_counts_connections:
  "connections_accepted (accept_loop quota_worker) = Some 3 \<and>
   requests_served (accept_loop quota_worker) = Some 2"
proof -
  have "accept_loop quota_worker = Returned
     (quota_worker\<lparr>sockets := [[hello_connection]], requests_processed := 3,
        served :=
          [handle [] (new_handler hello_app (''127.0.0.1'', 5000) (''127.0.0.1'', 40000)
                        no_keepalive_config gmt),
           handle [Data hello_request False]
             (new_handler hello_app (''127.0.0.1'', 5000) (''127.0.0.1'', 40001)
                no_keepalive_config gmt),
           handle [Data hello_request False]
             (new_handler hello_app (''127.0.0.1'', 5000) (''127.0.0.1'', 40001)
                no_keepalive_config gmt)]\<rparr>)"
    by (simp add: quota_worker_def new_worker_def silent_connection_def hello_connection_def
          accept_loop.simps no_keepalive_config_def keepalive_config_def)
  then show ?thesis
    by (simp add: connections_accepted_def requests_served_def returned_def
          hello_connection_served silent_connection_served)
qed

text \<open>
  Entered with \<open>n\<close> connections still allowed by \<open>max_requests\<close>, the loop accepts
  exactly the next \<open>n\<close> connections of the first listening socket (retrying after
  \<open>EAGAIN\<close>, \<open>ECONNABORTED\<close> and \<open>EPROTO\<close>) and then returns: the counter equals
  \<open>max_requests\<close>, \<open>n\<close> connections were handled, and everything behind the \<open>n\<close>-th
  connection is left in the queue.
\<close>

lemma accept_loop_quota:
  assumes "sockets w = (pre @ post) # others"
    and "max_requests (w_options w) - requests_processed w = int (length (filter is_connection pre))"
    and "pre \<noteq> [] \<longrightarrow> is_connection (last pre)"
    and "\<forall>a \<in> set pre. retried a"
  shows "\<exists>w'. accept_loop w = Returned w' \<and>
           requests_processed w' = max_requests (w_options w) \<and>
           sockets w' = post # others \<and>
           length (served w') = length (served w) + length (filter is_connection pre)"
  using assms
proof (induction pre arbitrary: w)
  case Nil
  then have "accept_loop w = Returned w" by (simp add: accept_loop_done)
  with Nil show ?case by simp
next
  case (Cons a pre)
  from Cons.prems(3) have lastc: "is_connection (last (a # pre))" by simp
  then have "filter is_connection (a # pre) \<noteq> []"
    by (metis filter_empty_conv last_in_set list.distinct(1))
  with Cons.prems(2) have lt: "requests_processed w < max_requests (w_options w)"
    by (cases "filter is_connection (a # pre)") auto
  show ?case
  proof (cases a)
    case (Accept_fails e)
    with Cons.prems(4) have r: "e \<in> {EAGAIN, ECONNABORTED, EPROTO}" by simp
    from Accept_fails lastc have ne: "pre \<noteq> []" by auto
    let ?w = "w\<lparr>sockets := (pre @ post) # others\<rparr>"
    have step: "accept_loop w = accept_loop ?w"
      using accept_loop_retry [OF lt _ r] Cons.prems(1) Accept_fails by simp
    have "\<exists>w'. accept_loop ?w = Returned w' \<and>
           requests_processed w' = max_requests (w_options ?w) \<and>
           sockets w' = post # others \<and>
           length (served w') = length (served ?w) + length (filter is_connection pre)"
      using Cons.prems Accept_fails ne lastc
      by (intro Cons.IH) auto
    with step Accept_fails show ?thesis by simp
  next
    case (Connection client_sockname client_addr script)
    let ?w = "w\<lparr>sockets := (pre @ post) # others,
          requests_processed := requests_processed w + 1,
          served := served w @
            [handle script
               (new_handler (w_app w) client_sockname client_addr (w_options w) (date w))]\<rparr>"
    have step: "accept_loop w = accept_loop ?w"
      using accept_loop_connection [OF lt] Cons.prems(1) Connection by simp
    have "\<exists>w'. accept_loop ?w = Returned w' \<and>
           requests_processed w' = max_requests (w_options ?w) \<and>
           sockets w' = post # others \<and>
           length (served w') = length (served ?w) + length (filter is_connection pre)"
      using Cons.prems Connection
      by (intro Cons.IH) (auto split: if_splits)
    with step Connection show ?thesis by simp
  qed
qed

lemma accept_loop_quota_example:
  "sockets retry_worker =
     ([hello_connection, Accept_fails EAGAIN, silent_connection, hello_connection]
        @ [hello_connection]) # [] \<and>
   max_requests (w_options retry_worker) - requests_processed retry_worker = 3 \<and>
   (\<exists>w'. accept_loop retry_worker = Returned w' \<and> requests_processed w' = 3 \<and>
      sockets w' = [[hello_connection]] \<and> length (served w') = 3)"
proof -
  have a: "sockets retry_worker =
     ([hello_connection, Accept_fails EAGAIN, silent_connection, hello_connection]
        @ [hello_connection]) # []"
    by (simp add: retry_worker_def new_worker_def)
  have b: "max_requests (w_options retry_worker) - requests_processed retry_worker =
     int (length (filter is_connection
       [hello_connection, Accept_fails EAGAIN, silent_connection, hello_connection]))"
    by (simp add: retry_worker_def new_worker_def keepalive_config_def hello_connection_def
          silent_connection_def)
  have c: "[hello_connection, Accept_fails EAGAIN, silent_connection, hello_connection] \<noteq> []
     \<longrightarrow> is_connection (last
       [hello_connection, Accept_fails EAGAIN, silent_connection, hello_connection])"
    by (simp add: hello_connection_def)
  have d: "\<forall>a \<in> set [hello_connection, Accept_fails EAGAIN, silent_connection,
     hello_connection]. retried a"
    by (simp add: hello_connection_def silent_connection_def)
  have e: "max_requests (w_options retry_worker) = 3" "served retry_worker = []"
    "requests_processed retry_worker = 0"
    by (simp_all add: retry_worker_def new_worker_def keepalive_config_def)
  have f: "length (filter is_connection
       [hello_connection, Accept_fails EAGAIN, silent_connection, hello_connection]) = 3"
    by (simp add: hello_connection_def silent_connection_def)
  from accept_loop_quota [OF a b c d] a e f show ?thesis by simp
qed

lemma first_socket_only:
  "accept_loop (w\<lparr>sockets := s0 # others\<rparr>) =
     (case accept_loop (w\<lparr>sockets := [s0]\<rparr>) of
        Returned w' \<Rightarrow> Returned (w'\<lparr>sockets := hd (sockets w') # others\<rparr>)
      | Raised e \<Rightarrow> Raised e
      | Hangs \<Rightarrow> Hangs)"
proof (induction s0 arbitrary: w)
  case Nil
  show ?case
    by (subst accept_loop.simps, subst (2) accept_loop.simps) simp
next
  case (Cons a s0)
  show ?case
  proof (cases "requests_processed w < max_requests (w_options w)")
    case False
    then show ?thesis
      by (simp add: accept_loop_done)
  next
    case lt: True
    show ?thesis
    proof (cases a)
      case (Accept_fails e)
      show ?thesis
      proof (cases "e \<in> {EAGAIN, ECONNABORTED, EPROTO}")
        case True
        have "accept_loop (w\<lparr>sockets := (a # s0) # others\<rparr>) = accept_loop (w\<lparr>sockets := s0 # others\<rparr>)"
          using accept_loop_retry [of "w\<lparr>sockets := (a # s0) # others\<rparr>" e s0 others] lt True Accept_fails
          by simp
        moreover have "accept_loop (w\<lparr>sockets := [a # s0]\<rparr>) = accept_loop (w\<lparr>sockets := [s0]\<rparr>)"
          using accept_loop_retry [of "w\<lparr>sockets := [a # s0]\<rparr>" e s0 "[]"] lt True Accept_fails
          by simp
        ultimately show ?thesis using Cons.IH [of w] by simp
      next
        case False
        with lt Accept_fails show ?thesis
          by (subst accept_loop.simps, subst (2) accept_loop.simps) simp
      qed
    next
      case (Connection client_sockname client_addr script)
      let ?w = "w\<lparr>requests_processed := requests_processed w + 1,
          served := served w @
            [handle script
               (new_handler (w_app w) client_sockname client_addr (w_options w) (date w))]\<rparr>"
      have reorder: "\<And>ss. w\<lparr>sockets := ss,
          requests_processed := requests_processed w + 1,
          served := served w @
            [handle script
               (new_handler (w_app w) client_sockname client_addr (w_options w) (date w))]\<rparr>
          = ?w\<lparr>sockets := ss\<rparr>"
        by (cases w) simp
      have "accept_loop (w\<lparr>sockets := (a # s0) # others\<rparr>) = accept_loop (?w\<lparr>sockets := s0 # others\<rparr>)"
        using accept_loop_connection [of "w\<lparr>sockets := (a # s0) # others\<rparr>" client_sockname client_addr script s0 others]
          lt Connection by (simp add: reorder)
      moreover have "accept_loop (w\<lparr>sockets := [a # s0]\<rparr>) = accept_loop (?w\<lparr>sockets := [s0]\<rparr>)"
        using accept_loop_connection [of "w\<lparr>sockets := [a # s0]\<rparr>" client_sockname client_addr script s0 "[]"]
          lt Connection by (simp add: reorder)
      ultimately show ?thesis using Cons.IH [of ?w] by simp
    qed
  qed
qed

lemma run_stops_before_the_loop: "run w = Raised (NameError ''signal'')"
  by (simp add: run_def worker_globals_def)

text \<open>
  Claim C3 (a worker with \<open>max_requests = 3\<close> serves exactly three requests and then
  leaves its loop). Four peers are waiting on the listening socket, each with one request,
  and \<open>max_requests\<close> is 3. \<open>run\<close> reads the global \<open>signal\<close> at line 180, which
  \<open>worker.py\<close> never binds: it raises \<open>NameError\<close> before the first \<open>accept\<close>, so the
  worker counts no connection and serves no request.
\<close>

theorem run_raises_before_accepting:
  "max_requests (w_options three_requests_worker) = 3 \<and>
   ''signal'' \<notin> set worker_globals \<and>
   run three_requests_worker = Raised (NameError ''signal'') \<and>
   connections_accepted (run three_requests_worker) = None \<and>
   requests_served (run three_requests_worker) = None"
  by (simp add: run_def worker_globals_def three_requests_worker_def new_worker_def
        no_keepalive_config_def keepalive_config_def connections_accepted_def
        requests_served_def returned_def)

lemma bind_each_length:
  "bind_each env addrs socks = Inr socks' \<Longrightarrow> length socks' = length socks + length addrs"
proof (induction addrs arbitrary: socks)
  case Nil
  then show ?case by simp
next
  case (Cons listen_addr rest)
  from Cons.prems obtain ep where "bind_each env rest (socks @ [ep]) = Inr socks'"
    by (auto simp: Let_def split: if_splits prod.splits option.splits)
  from Cons.IH [OF this] show ?case by simp
qed

text \<open>
  Claim C10 (a worker accepts from the first listening socket only). The master appends one
  socket for each configured listen address. Whatever further sockets the worker holds, its
  accept loop behaves as with the first socket alone and hands the others back untouched; so
  does \<open>run\<close>; and a worker that may still accept, with nothing pending on the first socket,
  waits there whatever is pending on the others.
\<close>

theorem only_first_socket_accepts:
  "accept_loop (w\<lparr>sockets := s0 # others\<rparr>) =
     (case accept_loop (w\<lparr>sockets := [s0]\<rparr>) of
        Returned w' \<Rightarrow> Returned (w'\<lparr>sockets := hd (sockets w') # others\<rparr>)
      | Raised e \<Rightarrow> Raised e
      | Hangs \<Rightarrow> Hangs) \<and>
   run (w\<lparr>sockets := s0 # others\<rparr>) =
     (case run (w\<lparr>sockets := [s0]\<rparr>) of
        Returned w' \<Rightarrow> Returned (w'\<lparr>sockets := hd (sockets w') # others\<rparr>)
      | Raised e \<Rightarrow> Raised e
      | Hangs \<Rightarrow> Hangs) \<and>
   (requests_processed w < max_requests (w_options w) \<longrightarrow>
      accept_loop (w\<lparr>sockets := [] # others\<rparr>) = Hangs) \<and>
   (server_starter_port env = None \<and> setup_sockets env opts [] = Inr socks \<longrightarrow>
      length socks = length (listen opts))"
proof -
  have r: "run (w\<lparr>sockets := s0 # others\<rparr>) =
     (case run (w\<lparr>sockets := [s0]\<rparr>) of
        Returned w' \<Rightarrow> Returned (w'\<lparr>sockets := hd (sockets w') # others\<rparr>)
      | Raised e \<Rightarrow> Raised e
      | Hangs \<Rightarrow> Hangs)"
    by (simp add: run_stops_before_the_loop)
  have h: "requests_processed w < max_requests (w_options w) \<longrightarrow>
      accept_loop (w\<lparr>sockets := [] # others\<rparr>) = Hangs"
    by (subst accept_loop.simps) simp
  have s: "server_starter_port env = None \<and> setup_sockets env opts [] = Inr socks \<longrightarrow>
      length socks = length (listen opts)"
    using bind_each_length [where env = env and addrs = "listen opts" and socks = "[]"
        and socks' = socks]
    by (auto simp: setup_sockets_def)
  from first_socket_only [where w = w and ?s0.0 = s0 and others = others] r h s
  show ?thesis by blast
qed

theorem only_first_socket_accepts_witness:
  "requests_processed two_socket_worker < max_requests (w_options two_socket_worker) \<and>
   sockets two_socket_worker = [[], [hello_connection]] \<and>
   accept_loop two_socket_worker = Hangs \<and>
   server_starter_port plain_host = None \<and>
   setup_sockets plain_host two_endpoint_config []
     = Inr [Tcp ''0.0.0.0'' 5000, Unix ''/tmp/starman.sock''] \<and>
   length (listen two_endpoint_config) = 2"
proof -
  have a: "requests_processed two_socket_worker < max_requests (w_options two_socket_worker)"
    by (simp add: two_socket_worker_def new_worker_def two_endpoint_config_def
          keepalive_config_def)
  have b: "two_socket_worker\<lparr>sockets := [] # [[hello_connection]]\<rparr> = two_socket_worker"
    "sockets two_socket_worker = [[], [hello_connection]]"
    by (simp_all add: two_socket_worker_def new_worker_def)
  have c: "server_starter_port plain_host = None" by (simp add: plain_host_def)
  have d: "setup_sockets plain_host two_endpoint_config []
     = Inr [Tcp ''0.0.0.0'' 5000, Unix ''/tmp/starman.sock'']"
    by (simp add: setup_sockets_def plain_host_def two_endpoint_config_def rsplit1_def)
  note t = only_first_socket_accepts [where w = two_socket_worker and ?s0.0 = "[]"
      and others = "[[hello_connection]]" and env = plain_host and opts = two_endpoint_config
      and socks = "[Tcp ''0.0.0.0'' 5000, Unix ''/tmp/starman.sock'']"]
  from t a have "accept_loop (two_socket_worker\<lparr>sockets := [] # [[hello_connection]]\<rparr>) = Hangs"
    by blast
  with b(1) have h: "accept_loop two_socket_worker = Hangs" by simp
  from t c d have "length [Tcp ''0.0.0.0'' 5000, Unix ''/tmp/starman.sock'']
      = length (listen two_endpoint_config)"
    by blast
  then have l: "length (listen two_endpoint_config) = 2" by simp
  from a b(2) h c d l show ?thesis by blast
qed

end
